theory Spec2Isabelle
  imports
    Complex_Main
    "HOL-Library.Product_Lexorder"
    "HOL-Library.List_Lexorder"
    "HOL-Library.Char_ord"
    "HOL-Library.Sublist"
    "HOL-Library.Multiset"
begin

section \<open>Government data pipeline (notebooks/dados_entrada.py)\<close>

text \<open>
  The script reads a semicolon-delimited CSV into a pandas DataFrame, cleans it, prints
  statistics and trends, saves the cleaned table, writes a textual report and two
  statistics files. The embedding follows the script function by function and step by step.

  Conventions of the embedding:
  \<^item> a DataFrame is a record of a header (column label and dtype) and a list of rows; every
    row has one cell for each column (\<open>retangular\<close>);
  \<^item> labels may repeat: \<open>df[c]\<close> is then a frame and not a column (\<open>selecionar\<close>), and the
    operations of the script that need a column raise; the model raises with them;
  \<^item> floating-point numbers are exact rationals (\<open>rat\<close>): rounding, overflow and
    infinities of IEEE doubles are not modelled;
  \<^item> what depends on the pandas in use is a parameter (\<open>pandas\<close>): whether it is version 3
    or later, how it reads a text as a date of format \<open>%d/%m/%Y\<close>, how it reads a text as
    a number;
  \<^item> \<open>pd.read_csv\<close> belongs to the environment, which gives the DataFrame it returns or
    the exception it raises;
  \<^item> console output is kept as the data of the sections printed, as far as the properties
    below need them; file output is a log of write attempts.
\<close>

subsection \<open>Python strings\<close>

definition is_space :: "char \<Rightarrow> bool" where
  "is_space c = (c \<in> set [CHR '' '', CHR 0x09, CHR 0x0A, CHR 0x0B, CHR 0x0C, CHR 0x0D])"

definition str_strip :: "string \<Rightarrow> string" where
  "str_strip s = rev (dropWhile is_space (rev (dropWhile is_space s)))"

definition lower_char :: "char \<Rightarrow> char" where
  "lower_char c =
     (case map_of (zip ''ABCDEFGHIJKLMNOPQRSTUVWXYZ'' ''abcdefghijklmnopqrstuvwxyz'') c of
        Some d \<Rightarrow> d
      | None \<Rightarrow> c)"

definition str_lower :: "string \<Rightarrow> string" where
  "str_lower s = map lower_char s"

text \<open>\<open>s.replace(old, new)\<close> for a non-empty \<open>old\<close>: every occurrence, left to right.
  The counter is the number of characters of a matched occurrence still to be dropped.\<close>

fun replace_go :: "string \<Rightarrow> string \<Rightarrow> nat \<Rightarrow> string \<Rightarrow> string" where
  "replace_go old new n [] = []"
| "replace_go old new (Suc n) (c # cs) = replace_go old new n cs"
| "replace_go old new 0 (c # cs) =
     (if prefix old (c # cs) then new @ replace_go old new (length old - 1) cs
      else c # replace_go old new 0 cs)"

definition str_replace :: "string \<Rightarrow> string \<Rightarrow> string \<Rightarrow> string" where
  "str_replace old new s = replace_go old new 0 s"

definition digit_char :: "nat \<Rightarrow> char" where
  "digit_char n = ''0123456789'' ! (n mod 10)"

subsection \<open>Dates\<close>

definition leap_year :: "nat \<Rightarrow> bool" where
  "leap_year y = (y mod 4 = 0 \<and> (y mod 100 \<noteq> 0 \<or> y mod 400 = 0))"

definition days_in_month :: "nat \<Rightarrow> nat \<Rightarrow> nat" where
  "days_in_month y m =
     (if m = 2 then (if leap_year y then 29 else 28)
      else if m \<in> set [4, 6, 9, 11] then 30 else 31)"

definition date_ordinal :: "nat \<Rightarrow> nat \<Rightarrow> nat \<Rightarrow> nat" where
  "date_ordinal y m d = y * 10000 + m * 100 + d"

text \<open>The day number of a date, counted from 1 January of year 1.\<close>

definition toordinal :: "nat \<Rightarrow> nat \<Rightarrow> nat \<Rightarrow> int" where
  "toordinal y m d =
     int (365 * (y - 1) + (y - 1) div 4 + (y - 1) div 400
          + sum_list (map (days_in_month y) [1..<m]) + d)
     - int ((y - 1) div 100)"

definition meses_ordem :: "string list" where
  "meses_ordem = [''Jan'', ''Feb'', ''Mar'', ''Apr'', ''May'', ''Jun'',
                  ''Jul'', ''Aug'', ''Sep'', ''Oct'', ''Nov'', ''Dec'']"

definition strftime_b :: "nat \<Rightarrow> string" where
  "strftime_b m = meses_ordem ! (m - 1)"

definition strftime_Ym :: "nat \<Rightarrow> nat \<Rightarrow> string" where
  "strftime_Ym y m =
     [digit_char (y div 1000), digit_char (y div 100), digit_char (y div 10), digit_char y]
     @ ''-'' @ [digit_char (m div 10), digit_char m]"

subsection \<open>The pandas in use\<close>

text \<open>
  \<^item> \<open>pandas3\<close>: version 3 or later. Copy-on-write then makes the in-place \<open>fillna\<close> of line
    112, called on the temporary \<open>df[coluna]\<close>, leave the frame as it was; and a text column
    has the \<open>str\<close> dtype, whose \<open>min\<close> passes over nulls.
  \<^item> \<open>strptime\<close>: the date (year, month, day) that \<open>pd.to_datetime(format='%d/%m/%Y')\<close>
    reads in a text, if it reads one.
  \<^item> \<open>to_float\<close>: the number that \<open>pd.to_numeric\<close> reads in a text, if it reads one.
\<close>

record pandas =
  pandas3 :: bool
  strptime :: "string \<Rightarrow> (nat \<times> nat \<times> nat) option"
  to_float :: "string \<Rightarrow> rat option"

subsection \<open>The Record Table\<close>

datatype dtype = Number | Object | Datetime

datatype cell = NaN | Num rat | Str string | Dt nat nat nat

record dataframe =
  colunas :: "(string \<times> dtype) list"
  linhas :: "cell list list"

datatype erro =
    FileNotFoundError
  | ParserError
  | KeyError string
  | TypeError
  | ValueError
  | AttributeError

definition nomes :: "dataframe \<Rightarrow> string list" where
  "nomes df = map fst (colunas df)"

definition has_col :: "dataframe \<Rightarrow> string \<Rightarrow> bool" where
  "has_col df c = (c \<in> set (nomes df))"

definition ocorrencias :: "dataframe \<Rightarrow> string \<Rightarrow> nat" where
  "ocorrencias df c = length (filter (\<lambda>n. n = c) (nomes df))"

fun index_of :: "'a \<Rightarrow> 'a list \<Rightarrow> nat" where
  "index_of x [] = 0"
| "index_of x (y # ys) = (if x = y then 0 else Suc (index_of x ys))"

text \<open>The column at a position, and the first column of a label.\<close>

definition coluna_em :: "dataframe \<Rightarrow> nat \<Rightarrow> cell list" where
  "coluna_em df j = map (\<lambda>r. r ! j) (linhas df)"

definition coluna :: "dataframe \<Rightarrow> string \<Rightarrow> cell list" where
  "coluna df c = coluna_em df (index_of c (nomes df))"

definition dtype_of :: "dataframe \<Rightarrow> string \<Rightarrow> dtype option" where
  "dtype_of df c = map_of (colunas df) c"

text \<open>\<open>df[c]\<close>: \<open>KeyError\<close> for a label that is absent, the column for a label that
  occurs once, a frame of the columns of that label otherwise.\<close>

datatype selecao = Ausente | Serie "cell list" | Quadro

definition selecionar :: "dataframe \<Rightarrow> string \<Rightarrow> selecao" where
  "selecionar df c =
     (if ocorrencias df c = 0 then Ausente
      else if ocorrencias df c = 1 then Serie (coluna df c)
      else Quadro)"

text \<open>\<open>df[c] = vals\<close>: every column of label \<open>c\<close> receives the values, or a new last
  column is added.\<close>

definition setitem :: "dataframe \<Rightarrow> string \<Rightarrow> dtype \<Rightarrow> cell list \<Rightarrow> dataframe" where
  "setitem df c t vals =
     (if has_col df c then
        \<lparr>colunas = map (\<lambda>(n, u). if n = c then (c, t) else (n, u)) (colunas df),
         linhas = map (\<lambda>(r, v). map (\<lambda>(n, x). if n = c then v else x) (zip (nomes df) r))
                      (zip (linhas df) vals)\<rparr>
      else
        \<lparr>colunas = colunas df @ [(c, t)],
         linhas = map (\<lambda>(r, v). r @ [v]) (zip (linhas df) vals)\<rparr>)"

definition empty_df :: "dataframe \<Rightarrow> bool" where
  "empty_df df = (linhas df = [] \<or> colunas df = [])"

definition retangular :: "dataframe \<Rightarrow> bool" where
  "retangular df = list_all (\<lambda>r. length r = length (colunas df)) (linhas df)"

definition notna :: "cell \<Rightarrow> bool" where
  "notna c = (c \<noteq> NaN)"

fun nao_numerico :: "cell \<Rightarrow> bool" where
  "nao_numerico (Str s) = True"
| "nao_numerico (Dt y m d) = True"
| "nao_numerico c = False"

fun e_texto :: "cell \<Rightarrow> bool" where
  "e_texto (Str s) = True"
| "e_texto c = False"

text \<open>A total order on cells for sorting: numbers by value, texts lexicographically,
  dates chronologically. A column holds cells of one kind (and nulls).\<close>

fun cell_key :: "cell \<Rightarrow> nat \<times> rat \<times> string" where
  "cell_key (Num r) = (0, r, [])"
| "cell_key (Str s) = (1, 0, s)"
| "cell_key (Dt y m d) = (2, of_nat (date_ordinal y m d), [])"
| "cell_key NaN = (3, 0, [])"

subsection \<open>Cleaner: steps 2 to 5 of \<open>processar_dados\<close>\<close>

text \<open>Step 2: \<open>df.columns = df.columns.str.strip().str.lower()\<close>.\<close>

definition normalizar_colunas :: "dataframe \<Rightarrow> dataframe" where
  "normalizar_colunas df =
     df\<lparr>colunas := map (\<lambda>(n, t). (str_lower (str_strip n), t)) (colunas df)\<rparr>"

text \<open>Step 3. When the frame has a null, the loop goes over the labels of the numeric
  columns. For a label that occurs once, the mean of the non-null values is taken and, if
  there is one, \<open>df[coluna].fillna(media, inplace=True)\<close> is called: before pandas 3 this
  fills the column of the frame, from pandas 3 on it fills a temporary. For a label that
  occurs more than once \<open>df[coluna]\<close> is a frame: its mean raises \<open>TypeError\<close> when one of
  its columns is not numeric, and otherwise is a series, on which
  \<open>not pd.isna(media)\<close> raises \<open>ValueError\<close>.\<close>

definition isnull_sum :: "dataframe \<Rightarrow> nat" where
  "isnull_sum df = sum_list (map (\<lambda>r. length (filter (\<lambda>c. c = NaN) r)) (linhas df))"

definition select_dtypes_number :: "dataframe \<Rightarrow> string list" where
  "select_dtypes_number df = map fst (filter (\<lambda>(n, t). t = Number) (colunas df))"

fun valores :: "cell list \<Rightarrow> rat list" where
  "valores [] = []"
| "valores (Num r # cs) = r # valores cs"
| "valores (c # cs) = valores cs"

definition mean :: "cell list \<Rightarrow> rat option" where
  "mean col =
     (let vs = valores col
      in if vs = [] then None else Some (sum_list vs / of_nat (length vs)))"

definition fillna :: "rat \<Rightarrow> cell list \<Rightarrow> cell list" where
  "fillna m col = map (\<lambda>c. if c = NaN then Num m else c) col"

definition preencher_coluna :: "pandas \<Rightarrow> dataframe \<Rightarrow> string \<Rightarrow> erro + dataframe" where
  "preencher_coluna pd df c =
     (case selecionar df c of
        Ausente \<Rightarrow> Inl (KeyError c)
      | Quadro \<Rightarrow>
          (if list_all (\<lambda>(n, t). if n = c then t = Number else True) (colunas df)
           then Inl ValueError else Inl TypeError)
      | Serie col \<Rightarrow>
          (case mean col of
             None \<Rightarrow> Inr df
           | Some media \<Rightarrow>
               if pandas3 pd then Inr df else Inr (setitem df c Number (fillna media col))))"

fun preencher :: "pandas \<Rightarrow> string list \<Rightarrow> dataframe \<Rightarrow> erro + dataframe" where
  "preencher pd [] df = Inr df"
| "preencher pd (c # resto) df =
     (case preencher_coluna pd df c of
        Inl e \<Rightarrow> Inl e
      | Inr df' \<Rightarrow> preencher pd resto df')"

definition tratar_nulos :: "pandas \<Rightarrow> dataframe \<Rightarrow> erro + dataframe" where
  "tratar_nulos pd df =
     (if isnull_sum df > 0 then preencher pd (select_dtypes_number df) df else Inr df)"

text \<open>Step 4: \<open>df.duplicated()\<close> marks a row equal to an earlier one (nulls compare equal);
  \<open>df.drop_duplicates()\<close> keeps the rows not marked.\<close>

fun duplicated_from :: "'a list \<Rightarrow> 'a list \<Rightarrow> bool list" where
  "duplicated_from seen [] = []"
| "duplicated_from seen (r # rs) = (r \<in> set seen) # duplicated_from (r # seen) rs"

definition duplicated :: "'a list \<Rightarrow> bool list" where
  "duplicated rs = duplicated_from [] rs"

definition drop_duplicates :: "'a list \<Rightarrow> 'a list" where
  "drop_duplicates rs = map snd (filter (\<lambda>(d, r). \<not> d) (zip (duplicated rs) rs))"

text \<open>The rows that \<open>drop_duplicates\<close> keeps when the rows of \<open>seen\<close> came before.\<close>

definition drop_from :: "'a list \<Rightarrow> 'a list \<Rightarrow> 'a list" where
  "drop_from seen rs = map snd (filter (\<lambda>(d, r). \<not> d) (zip (duplicated_from seen rs) rs))"

definition remover_duplicatas :: "dataframe \<Rightarrow> dataframe" where
  "remover_duplicatas df =
     (if length (filter (\<lambda>d. d) (duplicated (linhas df))) > 0
      then df\<lparr>linhas := drop_duplicates (linhas df)\<rparr>
      else df)"

text \<open>Step 5: \<open>pd.to_datetime(..., format='%d/%m/%Y', errors='coerce')\<close> and
  \<open>pd.to_numeric(..., errors='coerce')\<close>, then the calendar columns. A number given to
  \<open>to_datetime\<close> is turned into its text, which has no \<open>/\<close> and is not read. A date given
  to \<open>to_numeric\<close> becomes its count of nanoseconds since 1970.
  On a frame (the label occurs more than once) \<open>to_datetime\<close> raises \<open>ValueError\<close>,
  \<open>to_numeric\<close> raises \<open>TypeError\<close>, and the test \<open>df['data'].notna().any()\<close> raises
  \<open>ValueError\<close>.\<close>

fun to_datetime_cell :: "pandas \<Rightarrow> cell \<Rightarrow> cell" where
  "to_datetime_cell pd (Str s) =
     (case strptime pd s of Some (y, m, d) \<Rightarrow> Dt y m d | None \<Rightarrow> NaN)"
| "to_datetime_cell pd (Dt y m d) = Dt y m d"
| "to_datetime_cell pd c = NaN"

fun to_numeric_cell :: "pandas \<Rightarrow> cell \<Rightarrow> cell" where
  "to_numeric_cell pd (Num r) = Num r"
| "to_numeric_cell pd (Str s) = (case to_float pd s of Some r \<Rightarrow> Num r | None \<Rightarrow> NaN)"
| "to_numeric_cell pd (Dt y m d) =
     Num (of_int ((toordinal y m d - 719163) * 86400000000000))"
| "to_numeric_cell pd NaN = NaN"

fun dt_year :: "cell \<Rightarrow> cell" where
  "dt_year (Dt y m d) = Num (of_nat y)"
| "dt_year c = NaN"

fun dt_month :: "cell \<Rightarrow> cell" where
  "dt_month (Dt y m d) = Num (of_nat m)"
| "dt_month c = NaN"

fun dt_strftime_b :: "cell \<Rightarrow> cell" where
  "dt_strftime_b (Dt y m d) = Str (strftime_b m)"
| "dt_strftime_b c = NaN"

fun dt_strftime_Ym :: "cell \<Rightarrow> cell" where
  "dt_strftime_Ym (Dt y m d) = Str (strftime_Ym y m)"
| "dt_strftime_Ym c = NaN"

definition derivar_calendario :: "dataframe \<Rightarrow> dataframe" where
  "derivar_calendario df =
     (let df1 = setitem df ''ano'' Number (map dt_year (coluna df ''data''));
          df2 = setitem df1 ''mes'' Number (map dt_month (coluna df1 ''data''));
          df3 = setitem df2 ''mes_nome'' Object (map dt_strftime_b (coluna df2 ''data''))
      in setitem df3 ''mes_ano'' Object (map dt_strftime_Ym (coluna df3 ''data'')))"

text \<open>Lines 136 to 141.\<close>

definition converter_data :: "pandas \<Rightarrow> dataframe \<Rightarrow> erro + dataframe" where
  "converter_data pd df =
     (case selecionar df ''data'' of
        Ausente \<Rightarrow> Inr df
      | Quadro \<Rightarrow> Inl ValueError
      | Serie datas \<Rightarrow> Inr (setitem df ''data'' Datetime (map (to_datetime_cell pd) datas)))"

text \<open>Lines 143 to 160: the calendar columns are inside the block of \<open>valor\<close>.\<close>

definition converter_valor :: "pandas \<Rightarrow> dataframe \<Rightarrow> erro + dataframe" where
  "converter_valor pd df =
     (case selecionar df ''valor'' of
        Ausente \<Rightarrow> Inr df
      | Quadro \<Rightarrow> Inl TypeError
      | Serie valor \<Rightarrow>
          (let df2 = setitem df ''valor'' Number (map (to_numeric_cell pd) valor)
           in case selecionar df2 ''data'' of
                Ausente \<Rightarrow> Inr df2
              | Quadro \<Rightarrow> Inl ValueError
              | Serie datas \<Rightarrow>
                  if list_ex notna datas then Inr (derivar_calendario df2) else Inr df2))"

definition padronizar :: "pandas \<Rightarrow> dataframe \<Rightarrow> erro + dataframe" where
  "padronizar pd df =
     (case converter_data pd df of
        Inl e \<Rightarrow> Inl e
      | Inr df1 \<Rightarrow> converter_valor pd df1)"

definition limpar :: "pandas \<Rightarrow> dataframe \<Rightarrow> erro + dataframe" where
  "limpar pd df =
     (case tratar_nulos pd (normalizar_colunas df) of
        Inl e \<Rightarrow> Inl e
      | Inr df3 \<Rightarrow> padronizar pd (remover_duplicatas df3))"

subsection \<open>Analyzer: steps 6 and 7 of \<open>processar_dados\<close>\<close>

definition unique :: "'a list \<Rightarrow> 'a list" where
  "unique xs = drop_duplicates xs"

definition list_min :: "rat list \<Rightarrow> rat option" where
  "list_min vs = (case vs of [] \<Rightarrow> None | v # r \<Rightarrow> Some (fold min r v))"

definition list_max :: "rat list \<Rightarrow> rat option" where
  "list_max vs = (case vs of [] \<Rightarrow> None | v # r \<Rightarrow> Some (fold max r v))"

text \<open>\<open>df.groupby(k)[v].sum()\<close>: the keys are the distinct non-null cells of column \<open>k\<close>
  in ascending order; the sum of a key is taken over the non-null values of column \<open>v\<close> on
  the rows of that key, and is 0 when there is none.\<close>

definition group_keys :: "dataframe \<Rightarrow> string \<Rightarrow> cell list" where
  "group_keys df k = sort_key cell_key (unique (filter notna (coluna df k)))"

definition group_values :: "dataframe \<Rightarrow> string \<Rightarrow> string \<Rightarrow> cell \<Rightarrow> rat list" where
  "group_values df k v g =
     valores (map snd (filter (\<lambda>(kc, vc). kc = g) (zip (coluna df k) (coluna df v))))"

definition groupby_sum :: "dataframe \<Rightarrow> string \<Rightarrow> string \<Rightarrow> (cell \<times> rat) list" where
  "groupby_sum df k v = map (\<lambda>g. (g, sum_list (group_values df k v g))) (group_keys df k)"

text \<open>Step 6, the general statistics (lines 166 to 178). The period, the number of years,
  the median and the standard deviation are printed too and are left out here.\<close>

record estatisticas =
  total_de_registros :: nat
  media_geral :: "rat option"
  valor_minimo :: "rat option"
  valor_maximo :: "rat option"
  valores_negativos :: nat
  soma_total :: rat

definition entra_estatisticas :: "dataframe \<Rightarrow> bool" where
  "entra_estatisticas df = (has_col df ''valor'' \<and> list_ex notna (coluna df ''valor''))"

definition estatisticas_gerais :: "dataframe \<Rightarrow> estatisticas" where
  "estatisticas_gerais df =
     (let vs = valores (coluna df ''valor'')
      in \<lparr>total_de_registros = length (linhas df),
          media_geral = mean (coluna df ''valor''),
          valor_minimo = list_min vs,
          valor_maximo = list_max vs,
          valores_negativos = length (filter (\<lambda>v. v < 0) vs),
          soma_total = sum_list vs\<rparr>)"

text \<open>Step 7. The loop \<open>for i in range(1, len(soma_por_ano))\<close> visits the adjacent pairs
  of the yearly sums and prints a line only when the earlier sum is positive.\<close>

fun crescimentos :: "(cell \<times> rat) list \<Rightarrow> (cell \<times> cell \<times> rat) list" where
  "crescimentos (anterior # atual # resto) =
     (if snd anterior > 0
      then [(fst anterior, fst atual, ((snd atual - snd anterior) / snd anterior) * 100)]
      else [])
     @ crescimentos (atual # resto)"
| "crescimentos somas = []"

text \<open>\<open>df[df['ano'] == a]['valor'].sum()\<close>: a null year equals no year.\<close>

definition soma_do_ano :: "dataframe \<Rightarrow> cell \<Rightarrow> rat" where
  "soma_do_ano df a =
     sum_list (valores (map snd (filter (\<lambda>(kc, vc). notna kc \<and> kc = a)
                                   (zip (coluna df ''ano'') (coluna df ''valor'')))))"

definition crescimento_entre :: "dataframe \<Rightarrow> cell list \<Rightarrow> (cell \<times> cell \<times> rat) option" where
  "crescimento_entre df anos =
     (let primeiro_ano = hd anos;
          ultimo_ano = last anos;
          soma_primeiro = soma_do_ano df primeiro_ano;
          soma_ultimo = soma_do_ano df ultimo_ano
      in if soma_primeiro > 0
         then Some (primeiro_ano, ultimo_ano, ((soma_ultimo - soma_primeiro) / soma_primeiro) * 100)
         else None)"

definition entra_tendencias :: "dataframe \<Rightarrow> bool" where
  "entra_tendencias df = (has_col df ''valor'' \<and> has_col df ''ano'')"

definition anos_unicos :: "dataframe \<Rightarrow> cell list" where
  "anos_unicos df = sort_key cell_key (unique (filter notna (coluna df ''ano'')))"

definition calc_crescimento_total :: "dataframe \<Rightarrow> (cell \<times> cell \<times> rat) option" where
  "calc_crescimento_total df =
     (if entra_tendencias df \<and> length (anos_unicos df) \<ge> 2
      then crescimento_entre df (anos_unicos df)
      else None)"

text \<open>The lines under the heading CRESCIMENTO ANO A ANO; \<open>None\<close> when the heading is not
  printed.\<close>

definition calc_crescimento_ano_a_ano :: "dataframe \<Rightarrow> (cell \<times> cell \<times> rat) list option" where
  "calc_crescimento_ano_a_ano df =
     (if entra_tendencias df \<and> length (anos_unicos df) \<ge> 2
      then Some (crescimentos (groupby_sum df ''ano'' ''valor''))
      else None)"

text \<open>The exceptions of steps 6 and 7, which no \<open>try\<close> holds. They come from labels
  that occur more than once, where a frame stands for a column: the format of line 189
  (\<open>TypeError\<close>), \<open>groupby\<close> (\<open>ValueError\<close>), \<open>unique\<close> (\<open>AttributeError\<close>), the truth
  value of a series (\<open>ValueError\<close>), \<open>nlargest\<close> of a frame (\<open>TypeError\<close>). Before pandas 3
  the \<open>min\<close> of a text column that has a null raises \<open>TypeError\<close> too (line 169).\<close>

definition erro_por_mes :: "dataframe \<Rightarrow> erro option" where
  "erro_por_mes df = (if selecionar df ''mes_nome'' = Quadro then Some ValueError else None)"

definition erro_estatisticas :: "pandas \<Rightarrow> dataframe \<Rightarrow> erro option" where
  "erro_estatisticas pd df =
     (case selecionar df ''valor'' of
        Ausente \<Rightarrow> None
      | Quadro \<Rightarrow> Some ValueError
      | Serie valor \<Rightarrow>
          if list_ex notna valor then
            (case selecionar df ''ano'' of
               Ausente \<Rightarrow> erro_por_mes df
             | Quadro \<Rightarrow> Some TypeError
             | Serie anos \<Rightarrow>
                 if pandas3 pd then erro_por_mes df
                 else if list_ex e_texto anos \<and> list_ex (\<lambda>c. c = NaN) anos then Some TypeError
                 else erro_por_mes df)
          else None)"

definition erro_tendencias :: "dataframe \<Rightarrow> erro option" where
  "erro_tendencias df =
     (if entra_tendencias df then
        (case selecionar df ''ano'' of
           Quadro \<Rightarrow> Some AttributeError
         | Ausente \<Rightarrow> Some (KeyError ''ano'')
         | Serie anos \<Rightarrow>
             (case selecionar df ''valor'' of
                Quadro \<Rightarrow> Some (if length (anos_unicos df) \<ge> 2 then ValueError else TypeError)
              | Ausente \<Rightarrow> Some (KeyError ''valor'')
              | Serie valor \<Rightarrow> erro_por_mes df))
      else None)"

text \<open>What steps 6 and 7 print. The tables by year and by month and the two rankings are
  kept as the fact that their section is printed.\<close>

record secoes =
  s_estatisticas :: "estatisticas option"
  s_por_ano :: bool
  s_por_mes :: bool
  s_crescimento_total :: "(cell \<times> cell \<times> rat) option"
  s_crescimento_ano_a_ano :: "(cell \<times> cell \<times> rat) list option"
  s_top_anos :: bool
  s_top_meses :: bool

definition analise :: "pandas \<Rightarrow> dataframe \<Rightarrow> erro + secoes" where
  "analise pd df =
     (case erro_estatisticas pd df of
        Some e \<Rightarrow> Inl e
      | None \<Rightarrow>
          (case erro_tendencias df of
             Some e \<Rightarrow> Inl e
           | None \<Rightarrow>
               Inr \<lparr>s_estatisticas =
                      (if entra_estatisticas df then Some (estatisticas_gerais df) else None),
                    s_por_ano = (entra_estatisticas df \<and> has_col df ''ano''),
                    s_por_mes = (entra_estatisticas df \<and> has_col df ''mes_nome''),
                    s_crescimento_total = calc_crescimento_total df,
                    s_crescimento_ano_a_ano = calc_crescimento_ano_a_ano df,
                    s_top_anos = entra_tendencias df,
                    s_top_meses = (entra_tendencias df \<and> has_col df ''mes_nome'')\<rparr>))"

subsection \<open>Exporter: step 8 of \<open>processar_dados\<close>\<close>

text \<open>The environment gives what \<open>pd.read_csv(path, sep=';', thousands=',')\<close> returns or
  raises, and says which paths can be written: a write to another path raises. What the
  script does to the file system is the list of its write attempts, in order. Of the
  report and of the statistics files only the write is kept, not the content.\<close>

record ambiente =
  ler :: "string \<Rightarrow> erro + dataframe"
  gravavel :: "string \<Rightarrow> bool"

datatype conteudo =
    Tabela "string list" "cell list list"
  | Planilha "string list" "cell list list"
  | Relatorio
  | EstatisticasAno
  | EstatisticasMes

datatype evento = Escreveu string conteudo | Falhou string

text \<open>\<open>df.sort_values('data')\<close>: ascending, the rows with a null date last. The order
  among rows of one date is that of a stable sort here; pandas leaves it to the sorting
  algorithm.\<close>

definition sort_values :: "dataframe \<Rightarrow> string \<Rightarrow> dataframe" where
  "sort_values df c =
     (let i = index_of c (nomes df)
      in df\<lparr>linhas := sort_key (\<lambda>r. cell_key (r ! i)) (filter (\<lambda>r. notna (r ! i)) (linhas df))
                        @ filter (\<lambda>r. \<not> notna (r ! i)) (linhas df)\<rparr>)"

text \<open>One \<open>try\<close> block (lines 282 to 297) holds the sort, the CSV write and the
  spreadsheet write; its \<open>except\<close> returns \<open>None\<close>. The sort raises on a label that occurs
  more than once.\<close>

definition salvar :: "ambiente \<Rightarrow> dataframe \<Rightarrow> string \<Rightarrow> dataframe option \<times> evento list" where
  "salvar env df0 arquivo_saida =
     (if selecionar df0 ''data'' = Quadro then (None, [])
      else
        (let df = (if has_col df0 ''data'' then sort_values df0 ''data'' else df0)
         in if \<not> gravavel env arquivo_saida then (None, [Falhou arquivo_saida])
            else
              (let arquivo_excel = str_replace ''.csv'' ''.xlsx'' arquivo_saida
               in if \<not> gravavel env arquivo_excel
                  then (None, [Escreveu arquivo_saida (Tabela (nomes df) (linhas df)),
                               Falhou arquivo_excel])
                  else (Some df, [Escreveu arquivo_saida (Tabela (nomes df) (linhas df)),
                                  Escreveu arquivo_excel (Planilha (nomes df) (linhas df))]))))"

record processamento =
  retorno :: "dataframe option"
  impresso :: "secoes option"
  gravacoes :: "evento list"

text \<open>\<open>Inl\<close> is an exception that leaves the function. The read is inside a \<open>try\<close> whose
  \<open>except\<close> returns \<open>None\<close>; steps 2 to 7 are in no \<open>try\<close>.\<close>

definition processar_dados ::
  "pandas \<Rightarrow> ambiente \<Rightarrow> string \<Rightarrow> string \<Rightarrow> erro + processamento" where
  "processar_dados pd env arquivo_entrada arquivo_saida =
     (case ler env arquivo_entrada of
        Inl e \<Rightarrow> Inr \<lparr>retorno = None, impresso = None, gravacoes = []\<rparr>
      | Inr df0 \<Rightarrow>
          (case limpar pd df0 of
             Inl e \<Rightarrow> Inl e
           | Inr df \<Rightarrow>
               (case analise pd df of
                  Inl e \<Rightarrow> Inl e
                | Inr s \<Rightarrow>
                    (let (r, escritas) = salvar env df arquivo_saida
                     in Inr \<lparr>retorno = r, impresso = Some s, gravacoes = escritas\<rparr>))))"

subsection \<open>Report: \<open>gerar_relatorio_completo\<close>\<close>

text \<open>\<open>df['data'].min().date()\<close> (lines 331 and 552): \<open>KeyError\<close> for a missing column;
  otherwise the minimum must be a date. The minimum of a frame is a series, that of a
  numeric column a number, that of a text column a text (or a null, a float): none has a
  method \<open>date\<close>, which is \<open>AttributeError\<close>. Before pandas 3 the minimum of a text column
  that has a null raises \<open>TypeError\<close> first. The minimum of a date column without a date
  is \<open>NaT\<close>, whose \<open>date()\<close> is \<open>NaT\<close>.\<close>

definition erro_data_min :: "pandas \<Rightarrow> dataframe \<Rightarrow> erro option" where
  "erro_data_min pd df =
     (case selecionar df ''data'' of
        Ausente \<Rightarrow> Some (KeyError ''data'')
      | Quadro \<Rightarrow> Some AttributeError
      | Serie datas \<Rightarrow>
          if dtype_of df ''data'' = Some Datetime then None
          else if pandas3 pd then Some AttributeError
          else if list_ex e_texto datas \<and> list_ex (\<lambda>c. c = NaN) datas then Some TypeError
          else Some AttributeError)"

text \<open>\<open>(df['ano'] // 10) * 10\<close>, on a number or a null.\<close>

fun decada_cell :: "cell \<Rightarrow> cell" where
  "decada_cell (Num y) = Num (of_int (floor (y / 10)) * 10)"
| "decada_cell c = NaN"

text \<open>
  The exceptions of the report, in the order of the source; no \<open>try\<close> holds them:
  \<^item> line 331, \<open>df['data'].min().date()\<close>;
  \<^item> lines 332 and 333, \<open>nunique\<close> of \<open>ano\<close> and of \<open>mes_ano\<close>: \<open>KeyError\<close>;
  \<^item> line 338, the mean of \<open>valor\<close> in format \<open>,.2f\<close>: \<open>KeyError\<close>, or \<open>TypeError\<close> for a
    frame or a column that is not numeric;
  \<^item> line 351, \<open>groupby('ano')\<close>: \<open>ValueError\<close> when the label occurs more than once;
  \<^item> line 361, \<open>sorted(df['ano'].unique())\<close>: \<open>TypeError\<close> when a text is compared with a
    null;
  \<^item> line 382, \<open>groupby('mes_nome')\<close>: \<open>KeyError\<close> or \<open>ValueError\<close>;
  \<^item> line 394, \<open>(df['ano'] // 10) * 10\<close>: \<open>TypeError\<close> for a year that is not a number;
  \<^item> line 395, \<open>groupby('decada')\<close>: \<open>ValueError\<close> when the label occurs more than once.
\<close>

definition erro_relatorio :: "pandas \<Rightarrow> dataframe \<Rightarrow> erro option" where
  "erro_relatorio pd df =
     (case erro_data_min pd df of
        Some e \<Rightarrow> Some e
      | None \<Rightarrow>
          if \<not> has_col df ''ano'' then Some (KeyError ''ano'')
          else if \<not> has_col df ''mes_ano'' then Some (KeyError ''mes_ano'')
          else
            (case selecionar df ''valor'' of
               Ausente \<Rightarrow> Some (KeyError ''valor'')
             | Quadro \<Rightarrow> Some TypeError
             | Serie valor \<Rightarrow>
                 if list_ex nao_numerico valor then Some TypeError
                 else
                   (case selecionar df ''ano'' of
                      Ausente \<Rightarrow> Some (KeyError ''ano'')
                    | Quadro \<Rightarrow> Some ValueError
                    | Serie anos \<Rightarrow>
                        if list_ex e_texto anos \<and> list_ex (\<lambda>c. c = NaN) anos
                        then Some TypeError
                        else
                          (case selecionar df ''mes_nome'' of
                             Ausente \<Rightarrow> Some (KeyError ''mes_nome'')
                           | Quadro \<Rightarrow> Some ValueError
                           | Serie meses \<Rightarrow>
                               if list_ex nao_numerico anos then Some TypeError
                               else if ocorrencias df ''decada'' > 1 then Some ValueError
                               else None))))"

text \<open>The function returns the report, or \<open>None\<close> for no table or an empty one: the
  model returns whether a report was returned. The table it was given is the caller's
  object, and line 394, \<open>df['decada'] = (df['ano'] // 10) * 10\<close>, assigns to it: the model
  returns the state of the table too. Only the write of the file is inside a \<open>try\<close>.\<close>

definition gerar_relatorio_completo ::
  "pandas \<Rightarrow> ambiente \<Rightarrow> dataframe option \<Rightarrow> string
     \<Rightarrow> erro + (dataframe option \<times> bool \<times> evento list)" where
  "gerar_relatorio_completo pd env dfo arquivo_saida =
     (case dfo of
        None \<Rightarrow> Inr (None, False, [])
      | Some df \<Rightarrow>
          if empty_df df then Inr (Some df, False, [])
          else
            (case erro_relatorio pd df of
               Some e \<Rightarrow> Inl e
             | None \<Rightarrow>
                 (let df_decada = setitem df ''decada'' Number
                                    (map decada_cell (coluna df ''ano''));
                      nome_relatorio = str_replace ''.csv'' ''_relatorio.txt'' arquivo_saida
                  in Inr (Some df_decada, True,
                          [if gravavel env nome_relatorio
                           then Escreveu nome_relatorio Relatorio
                           else Falhou nome_relatorio]))))"

subsection \<open>Statistics files: \<open>exportar_estatisticas_detalhadas\<close>\<close>

text \<open>The whole body is one \<open>try\<close> block: a missing column, an aggregation that fails and
  a write that fails all end in \<open>(None, None)\<close>. The table is only read, so the function
  has no state of the table to return. The result is whether the statistics were
  returned.\<close>

definition agregavel :: "dataframe \<Rightarrow> bool" where
  "agregavel df =
     (case selecionar df ''ano'' of
        Serie anos \<Rightarrow>
          (case selecionar df ''valor'' of
             Serie valor \<Rightarrow>
               (if list_ex nao_numerico valor then False
                else (case selecionar df ''mes_nome'' of
                        Serie meses \<Rightarrow> True
                      | _ \<Rightarrow> False))
           | _ \<Rightarrow> False)
      | _ \<Rightarrow> False)"

definition exportar_estatisticas_detalhadas ::
  "ambiente \<Rightarrow> dataframe option \<Rightarrow> string \<Rightarrow> bool \<times> evento list" where
  "exportar_estatisticas_detalhadas env dfo arquivo_saida =
     (case dfo of
        None \<Rightarrow> (False, [])
      | Some df \<Rightarrow>
          if empty_df df then (False, [])
          else if \<not> agregavel df then (False, [])
          else
            (let arquivo_stats_ano = str_replace ''.csv'' ''_estatisticas_ano.csv'' arquivo_saida;
                 arquivo_stats_mes = str_replace ''.csv'' ''_estatisticas_mes.csv'' arquivo_saida
             in if \<not> gravavel env arquivo_stats_ano
                then (False, [Falhou arquivo_stats_ano])
                else if \<not> gravavel env arquivo_stats_mes
                then (False, [Escreveu arquivo_stats_ano EstatisticasAno,
                              Falhou arquivo_stats_mes])
                else (True, [Escreveu arquivo_stats_ano EstatisticasAno,
                             Escreveu arquivo_stats_mes EstatisticasMes])))"

subsection \<open>\<open>main\<close>\<close>

datatype banner = FinalizadoComSucesso | Interrompido

record execucao =
  mensagem :: banner
  tabela_final :: "dataframe option"
  escritas :: "evento list"

definition ARQUIVO_ENTRADA :: string where
  "ARQUIVO_ENTRADA = ''data'' @ ''/'' @ ''governo.csv''"

definition ARQUIVO_SAIDA :: string where
  "ARQUIVO_SAIDA = ''data'' @ ''/'' @ ''governo_processado.csv''"

text \<open>The summary at the end of \<open>main\<close> (lines 546 to 557) reads the columns \<open>valor\<close> and
  \<open>data\<close> of the table, which by then is the one the report stage has updated:
  \<open>dados_processados['valor'].describe()\<close> raises \<open>KeyError\<close> for a missing column, then
  \<open>dados_processados['data'].min().date()\<close> is evaluated.\<close>

definition resumo_final :: "pandas \<Rightarrow> dataframe \<Rightarrow> erro option" where
  "resumo_final pd df =
     (if \<not> has_col df ''valor'' then Some (KeyError ''valor'') else erro_data_min pd df)"

text \<open>\<open>Inl\<close> is an exception that leaves \<open>main\<close>: nothing in \<open>main\<close> catches. The two
  stage functions receive the table that \<open>processar_dados\<close> returned, each in the state
  the stage before left it in.\<close>

definition main :: "pandas \<Rightarrow> ambiente \<Rightarrow> erro + execucao" where
  "main pd env =
     (case processar_dados pd env ARQUIVO_ENTRADA ARQUIVO_SAIDA of
        Inl e \<Rightarrow> Inl e
      | Inr p \<Rightarrow>
          (case retorno p of
             None \<Rightarrow>
               Inr \<lparr>mensagem = Interrompido, tabela_final = None, escritas = gravacoes p\<rparr>
           | Some dados_processados \<Rightarrow>
               (case gerar_relatorio_completo pd env (Some dados_processados) ARQUIVO_SAIDA of
                  Inl e \<Rightarrow> Inl e
                | Inr (dfo, relatorio, escritas_relatorio) \<Rightarrow>
                    (let tabela = (case dfo of Some df \<Rightarrow> df | None \<Rightarrow> dados_processados);
                         (stats, escritas_stats) =
                           exportar_estatisticas_detalhadas env (Some tabela) ARQUIVO_SAIDA
                     in case resumo_final pd tabela of
                          Some e \<Rightarrow> Inl e
                        | None \<Rightarrow>
                            Inr \<lparr>mensagem = FinalizadoComSucesso,
                                 tabela_final = Some tabela,
                                 escritas = gravacoes p @ escritas_relatorio
                                            @ escritas_stats\<rparr>))))"

subsection \<open>An example of a pandas\<close>

text \<open>For the concrete examples: a pandas before version 3 whose readers accept the plain
  forms, a date as day, month and year in digits, and a number as an optional sign, digits
  and an optional fractional part. What else the readers of a real pandas accept does not
  enter the examples.\<close>

fun split_on :: "char \<Rightarrow> string \<Rightarrow> string list" where
  "split_on sep [] = [[]]"
| "split_on sep (c # cs) =
     (if c = sep then [] # split_on sep cs
      else (case split_on sep cs of
              [] \<Rightarrow> [[c]]
            | w # ws \<Rightarrow> (c # w) # ws))"

definition digit_val :: "char \<Rightarrow> nat option" where
  "digit_val c = map_of (zip ''0123456789'' [0, 1, 2, 3, 4, 5, 6, 7, 8, 9]) c"

fun digits_val :: "string \<Rightarrow> nat \<Rightarrow> nat option" where
  "digits_val [] acc = Some acc"
| "digits_val (c # cs) acc =
     (case digit_val c of
        None \<Rightarrow> None
      | Some d \<Rightarrow> digits_val cs (10 * acc + d))"

definition parse_nat :: "string \<Rightarrow> nat option" where
  "parse_nat s = (if s = [] then None else digits_val s 0)"

definition parse_unsigned :: "string \<Rightarrow> rat option" where
  "parse_unsigned s =
     (case split_on (CHR ''.'') s of
        [i] \<Rightarrow> map_option of_nat (parse_nat i)
      | [i, f] \<Rightarrow>
          (case (parse_nat i, parse_nat f) of
             (Some a, Some b) \<Rightarrow> Some (of_nat a + of_nat b / 10 ^ length f)
           | _ \<Rightarrow> None)
      | _ \<Rightarrow> None)"

definition parse_number :: "string \<Rightarrow> rat option" where
  "parse_number s =
     (case s of
        [] \<Rightarrow> None
      | c # r \<Rightarrow>
          if c = CHR ''-'' then map_option uminus (parse_unsigned r)
          else if c = CHR ''+'' then parse_unsigned r
          else parse_unsigned s)"

definition strptime_dmY :: "string \<Rightarrow> (nat \<times> nat \<times> nat) option" where
  "strptime_dmY s =
     (case split_on (CHR ''/'') s of
        [ds, ms, ys] \<Rightarrow>
          (if length ds \<le> 2 \<and> length ms \<le> 2 \<and> length ys = 4 then
             (case (parse_nat ds, parse_nat ms, parse_nat ys) of
                (Some d, Some m, Some y) \<Rightarrow>
                  (if 1 \<le> m \<and> m \<le> 12 \<and> 1 \<le> d \<and> d \<le> days_in_month y m
                      \<and> 16770922 \<le> date_ordinal y m d \<and> date_ordinal y m d \<le> 22620411
                   then Some (y, m, d) else None)
              | _ \<Rightarrow> None)
           else None)
      | _ \<Rightarrow> None)"

definition pandas_exemplo :: pandas where
  "pandas_exemplo = \<lparr>pandas3 = False, strptime = strptime_dmY, to_float = parse_number\<rparr>"

subsection \<open>Concrete inputs\<close>

text \<open>The frame that \<open>read_csv\<close> makes of the scenario of the specification, the header
  \<open>data;valor\<close> and the rows \<open>01/01/2020;100\<close>, \<open>01/01/2020;100\<close>, \<open>15/06/2021;-50\<close>: a
  text column and an integer column.\<close>

definition tabela_cenario :: dataframe where
  "tabela_cenario =
     \<lparr>colunas = [(''data'', Object), (''valor'', Number)],
      linhas = [[Str ''01/01/2020'', Num 100], [Str ''01/01/2020'', Num 100],
                [Str ''15/06/2021'', Num (- 50)]]\<rparr>"

definition cenario_limpo :: dataframe where
  "cenario_limpo =
     \<lparr>colunas = [(''data'', Datetime), (''valor'', Number), (''ano'', Number),
                 (''mes'', Number), (''mes_nome'', Object), (''mes_ano'', Object)],
      linhas = [[Dt 2020 1 1, Num 100, Num 2020, Num 1, Str ''Jan'', Str ''2020-01''],
                [Dt 2021 6 15, Num (- 50), Num 2021, Num 6, Str ''Jun'', Str ''2021-06'']]\<rparr>"

definition cenario_com_decada :: dataframe where
  "cenario_com_decada =
     \<lparr>colunas = [(''data'', Datetime), (''valor'', Number), (''ano'', Number),
                 (''mes'', Number), (''mes_nome'', Object), (''mes_ano'', Object),
                 (''decada'', Number)],
      linhas = [[Dt 2020 1 1, Num 100, Num 2020, Num 1, Str ''Jan'', Str ''2020-01'',
                 Num 2020],
                [Dt 2021 6 15, Num (- 50), Num 2021, Num 6, Str ''Jun'', Str ''2021-06'',
                 Num 2020]]\<rparr>"

text \<open>An environment whose input file holds a given frame, and where every path can be
  written; and one where the spreadsheet of the output cannot.\<close>

definition ambiente_livre :: "dataframe \<Rightarrow> ambiente" where
  "ambiente_livre t =
     \<lparr>ler = (\<lambda>p. if p = ARQUIVO_ENTRADA then Inr t else Inl FileNotFoundError),
      gravavel = (\<lambda>p. True)\<rparr>"

definition ambiente_sem_planilha :: "dataframe \<Rightarrow> ambiente" where
  "ambiente_sem_planilha t =
     \<lparr>ler = (\<lambda>p. if p = ARQUIVO_ENTRADA then Inr t else Inl FileNotFoundError),
      gravavel = (\<lambda>p. p \<noteq> str_replace ''.csv'' ''.xlsx'' ARQUIVO_SAIDA)\<rparr>"

text \<open>The file of the single column \<open>valor\<close> and the row \<open>100\<close>.\<close>

definition tabela_so_valor :: dataframe where
  "tabela_so_valor = \<lparr>colunas = [(''valor'', Number)], linhas = [[Num 100]]\<rparr>"

text \<open>The file \<open>data;valor\<close> with the row \<open>;100\<close>: the empty column is read as a numeric
  column of nulls.\<close>

definition tabela_datas_nulas :: dataframe where
  "tabela_datas_nulas =
     \<lparr>colunas = [(''data'', Number), (''valor'', Number)], linhas = [[NaN, Num 100]]\<rparr>"

text \<open>The file whose header is \<open>valor; valor\<close> and whose rows are \<open>1;2\<close> and \<open>;3\<close>: the two
  labels differ by a space.\<close>

definition tabela_rotulo_repetido :: dataframe where
  "tabela_rotulo_repetido =
     \<lparr>colunas = [(''valor'', Number), ('' valor'', Number)],
      linhas = [[Num 1, Num 2], [NaN, Num 3]]\<rparr>"

text \<open>The file \<open>valor\<close> with the rows \<open>1\<close>, an empty field and \<open>3\<close> (read with
  \<open>skip_blank_lines\<close> off, or any file whose column \<open>valor\<close> has these values beside
  another column).\<close>

definition tabela_com_nulo :: dataframe where
  "tabela_com_nulo =
     \<lparr>colunas = [(''id'', Object), (''valor'', Number)],
      linhas = [[Str ''a'', Num 1], [Str ''b'', NaN], [Str ''c'', Num 3]]\<rparr>"

text \<open>The file \<open>data;valor\<close> with the row \<open>01/01/2020;\<close>: no value in \<open>valor\<close>.\<close>

definition tabela_valor_nulo :: dataframe where
  "tabela_valor_nulo =
     \<lparr>colunas = [(''data'', Object), (''valor'', Number)],
      linhas = [[Str ''01/01/2020'', NaN]]\<rparr>"

definition valor_nulo_limpo :: dataframe where
  "valor_nulo_limpo =
     \<lparr>colunas = [(''data'', Datetime), (''valor'', Number), (''ano'', Number),
                 (''mes'', Number), (''mes_nome'', Object), (''mes_ano'', Object)],
      linhas = [[Dt 2020 1 1, NaN, Num 2020, Num 1, Str ''Jan'', Str ''2020-01'']]\<rparr>"

text \<open>The file that holds only the header \<open>ano;valor\<close>.\<close>

definition cabecalho_ano_valor :: dataframe where
  "cabecalho_ano_valor = \<lparr>colunas = [(''ano'', Object), (''valor'', Object)], linhas = []\<rparr>"

text \<open>The file \<open>data;valor\<close> with the rows \<open>01/01/2020;-50\<close> and \<open>01/01/2021;100\<close>, and
  the table the Cleaner makes of it.\<close>

definition tabela_queda :: dataframe where
  "tabela_queda =
     \<lparr>colunas = [(''data'', Object), (''valor'', Number)],
      linhas = [[Str ''01/01/2020'', Num (- 50)], [Str ''01/01/2021'', Num 100]]\<rparr>"

definition queda_limpa :: dataframe where
  "queda_limpa =
     \<lparr>colunas = [(''data'', Datetime), (''valor'', Number), (''ano'', Number),
                 (''mes'', Number), (''mes_nome'', Object), (''mes_ano'', Object)],
      linhas = [[Dt 2020 1 1, Num (- 50), Num 2020, Num 1, Str ''Jan'', Str ''2020-01''],
                [Dt 2021 1 1, Num 100, Num 2021, Num 1, Str ''Jan'', Str ''2021-01'']]\<rparr>"

text \<open>The file \<open>data;valor\<close> with the rows \<open>01/01/2020;abc\<close>, \<open>02/01/2020;\<close> and
  \<open>03/01/2020;7\<close>: the column \<open>valor\<close> is read as text.\<close>

definition tabela_valor_texto :: dataframe where
  "tabela_valor_texto =
     \<lparr>colunas = [(''data'', Object), (''valor'', Object)],
      linhas = [[Str ''01/01/2020'', Str ''abc''], [Str ''02/01/2020'', NaN],
                [Str ''03/01/2020'', Str ''7'']]\<rparr>"

text \<open>The file that holds only the header \<open>data;valor\<close>.\<close>

definition cabecalho_data_valor :: dataframe where
  "cabecalho_data_valor =
     \<lparr>colunas = [(''data'', Object), (''valor'', Object)], linhas = []\<rparr>"

section \<open>Properties\<close>

subsection \<open>Duplicate removal\<close>

lemma length_duplicated_from: "length (duplicated_from seen rs) = length rs"
  by (induction rs arbitrary: seen) auto

lemma drop_from_Nil: "drop_from seen [] = []"
  by (simp add: drop_from_def)

lemma drop_from_Cons:
  "drop_from seen (r # rs) = (if r \<in> set seen then drop_from (r # seen) rs else r # drop_from (r # seen) rs)"
  by (simp add: drop_from_def)

lemma drop_from_filter:
  "drop_from seen rs = filter (\<lambda>x. x \<notin> set seen) (drop_from [] rs)"
proof (induction rs arbitrary: seen)
  case Nil
  then show ?case by (simp add: drop_from_Nil)
next
  case (Cons r rs)
  have a: "drop_from (r # seen) rs = filter (\<lambda>x. x \<notin> set (r # seen)) (drop_from [] rs)"
    by (rule Cons.IH)
  have b: "drop_from [r] rs = filter (\<lambda>x. x \<notin> set [r]) (drop_from [] rs)"
    by (rule Cons.IH)
  show ?case
    by (simp add: drop_from_Cons a b conj_commute)
qed

lemma drop_duplicates_Nil: "drop_duplicates [] = []"
  by (simp add: drop_duplicates_def duplicated_def)

lemma drop_duplicates_Cons:
  "drop_duplicates (r # rs) = r # filter (\<lambda>x. x \<noteq> r) (drop_duplicates rs)"
proof -
  have "drop_from [] (r # rs) = r # drop_from [r] rs"
    by (simp add: drop_from_Cons)
  also have "drop_from [r] rs = filter (\<lambda>x. x \<notin> set [r]) (drop_from [] rs)"
    by (rule drop_from_filter)
  finally show ?thesis
    by (simp add: drop_duplicates_def duplicated_def drop_from_def)
qed

lemma set_drop_duplicates: "set (drop_duplicates rs) = set rs"
  by (induction rs) (auto simp: drop_duplicates_Nil drop_duplicates_Cons)

lemma distinct_drop_duplicates: "distinct (drop_duplicates rs)"
  by (induction rs) (auto simp: drop_duplicates_Nil drop_duplicates_Cons)

lemma subseq_drop_duplicates: "subseq (drop_duplicates rs) rs"
proof (induction rs)
  case Nil
  then show ?case by (simp add: drop_duplicates_Nil)
next
  case (Cons r rs)
  have "subseq (filter (\<lambda>x. x \<noteq> r) (drop_duplicates rs)) (drop_duplicates rs)"
    by simp
  then have "subseq (filter (\<lambda>x. x \<noteq> r) (drop_duplicates rs)) rs"
    using Cons.IH subseq_order.order_trans by blast
  then show ?case by (simp add: drop_duplicates_Cons)
qed

lemma length_drop_duplicates: "length (drop_duplicates rs) = card (set rs)"
  using distinct_card[OF distinct_drop_duplicates, of rs] by (simp add: set_drop_duplicates)

lemma drop_duplicates_distinct: "distinct rs \<Longrightarrow> drop_duplicates rs = rs"
proof (induction rs)
  case Nil
  then show ?case by (simp add: drop_duplicates_Nil)
next
  case (Cons r rs)
  then have "filter (\<lambda>x. x \<noteq> r) rs = rs" by (auto intro: filter_True)
  with Cons show ?case by (simp add: drop_duplicates_Cons)
qed

lemma drop_duplicates_idem: "drop_duplicates (drop_duplicates rs) = drop_duplicates rs"
  by (simp add: drop_duplicates_distinct distinct_drop_duplicates)

lemma takeWhile_filter_commute:
  "(\<And>y. \<not> P y \<Longrightarrow> Q y) \<Longrightarrow> takeWhile P (filter Q ys) = filter Q (takeWhile P ys)"
  by (induction ys) auto

lemma takeWhile_drop_duplicates:
  "takeWhile (\<lambda>x. x \<noteq> r) (drop_duplicates rs) = drop_duplicates (takeWhile (\<lambda>x. x \<noteq> r) rs)"
proof (induction rs)
  case Nil
  then show ?case by (simp add: drop_duplicates_Nil)
next
  case (Cons a rs)
  show ?case
  proof (cases "a = r")
    case True
    then show ?thesis by (simp add: drop_duplicates_Cons drop_duplicates_Nil)
  next
    case False
    have "takeWhile (\<lambda>x. x \<noteq> r) (filter (\<lambda>x. x \<noteq> a) (drop_duplicates rs))
          = filter (\<lambda>x. x \<noteq> a) (takeWhile (\<lambda>x. x \<noteq> r) (drop_duplicates rs))"
      using False by (intro takeWhile_filter_commute) auto
    with False Cons.IH show ?thesis by (simp add: drop_duplicates_Cons)
  qed
qed

lemma no_duplicated_distinct:
  "filter (\<lambda>d. d) (duplicated_from seen rs) = [] \<Longrightarrow> distinct rs \<and> set rs \<inter> set seen = {}"
proof (induction rs arbitrary: seen)
  case Nil
  then show ?case by simp
next
  case (Cons r rs)
  from Cons.prems have r: "r \<notin> set seen" and rest: "filter (\<lambda>d. d) (duplicated_from (r # seen) rs) = []"
    by (auto split: if_splits)
  from Cons.IH[OF rest] r show ?case by auto
qed

lemma remover_duplicatas_eq:
  "remover_duplicatas df = df\<lparr>linhas := drop_duplicates (linhas df)\<rparr>"
proof (cases "filter (\<lambda>d. d) (duplicated (linhas df)) = []")
  case True
  then have "distinct (linhas df)"
    using no_duplicated_distinct[of "[]" "linhas df"] by (simp add: duplicated_def)
  then show ?thesis
    using True by (simp add: remover_duplicatas_def drop_duplicates_distinct)
next
  case False
  then show ?thesis by (simp add: remover_duplicatas_def)
qed

text \<open>
  Claim C5. After the duplicate-removal step no two rows of the table are equal; the rows
  kept are the first occurrences, in their order: the result is a subsequence of the input
  with the same set of rows, and the rows standing before a row \<open>r\<close> in the result are
  those standing before the first \<open>r\<close> in the input. The number of rows left is the number
  of distinct rows of the input, the header is unchanged, and a second application of the
  step changes nothing.
\<close>

theorem C5_deduplicacao:
  "distinct (linhas (remover_duplicatas df))
   \<and> set (linhas (remover_duplicatas df)) = set (linhas df)
   \<and> subseq (linhas (remover_duplicatas df)) (linhas df)
   \<and> (\<forall>r. set (takeWhile (\<lambda>x. x \<noteq> r) (linhas (remover_duplicatas df)))
            = set (takeWhile (\<lambda>x. x \<noteq> r) (linhas df)))
   \<and> length (linhas (remover_duplicatas df)) = card (set (linhas df))
   \<and> colunas (remover_duplicatas df) = colunas df
   \<and> remover_duplicatas (remover_duplicatas df) = remover_duplicatas df"
  by (simp add: remover_duplicatas_eq distinct_drop_duplicates set_drop_duplicates
        subseq_drop_duplicates length_drop_duplicates drop_duplicates_idem
        takeWhile_drop_duplicates)

end
